theory Spec2Isabelle
  imports Main
begin

section \<open>The code block component of the fuwari theme\<close>

text \<open>
  A shallow embedding of \<^verbatim>\<open>code-block.tsx\<close>: the props of \<^verbatim>\<open>CodeBlock\<close>, the
  markup it injects, its four \<^verbatim>\<open>useState\<close> cells, the layout effect that measures
  the rendered content, the two click handlers and the style of the folding wrapper.
  What the component does to its surroundings is kept in the same record as the hook
  state: the texts handed to \<^verbatim>\<open>navigator.clipboard.writeText\<close>, the callbacks
  registered with \<^verbatim>\<open>setTimeout\<close> (each by its due time) and a clock in milliseconds.
\<close>

subsection \<open>Props and markup\<close>

text \<open>
  \<^verbatim>\<open>interface CodeBlockProps\<close>. A JavaScript string is taken as a list of characters;
  \<^verbatim>\<open>language: string | null\<close> and the optional \<^verbatim>\<open>highlightedHtml\<close> are options.
\<close>

record props =
  code :: string
  language :: "string option"
  highlightedHtml :: "string option"

definition FOLD_THRESHOLD :: int where
  "FOLD_THRESHOLD = 400"

text \<open>The two constant pieces of the template literal of line 47, around \<^verbatim>\<open>${code}\<close>.\<close>

definition fallback_open :: string where
  "fallback_open = ''<pre class=\"shiki font-mono text-sm leading-relaxed whitespace-pre-wrap text-(--fuwari-btn-content) bg-transparent! p-0 m-0 border-0\"><code>''"

definition fallback_close :: string where
  "fallback_close = ''</code></pre>''"

definition fallback :: "props \<Rightarrow> string" where
  "fallback p = fallback_open @ code p @ fallback_close"

text \<open>
  \<^verbatim>\<open>const html = highlightedHtml || fallback\<close>: the left operand is falsy when it is
  \<^verbatim>\<open>undefined\<close> and when it is the empty string.
\<close>

definition html :: "props \<Rightarrow> string" where
  "html p =
     (case highlightedHtml p of
        None \<Rightarrow> fallback p
      | Some h \<Rightarrow> if h = [] then fallback p else h)"

subsection \<open>Blocks in a markup\<close>

text \<open>
  What it means for a markup to be a single preformatted block is not in the source;
  it is taken from the words of the specification. \<open>occurrences pat m\<close> counts the places
  of the markup \<open>m\<close> where the text \<open>pat\<close> starts.
\<close>

fun starts_with :: "string \<Rightarrow> string \<Rightarrow> bool" where
  "starts_with [] m = True"
| "starts_with (c # pat) [] = False"
| "starts_with (c # pat) (d # m) = (c = d \<and> starts_with pat m)"

fun occurrences :: "string \<Rightarrow> string \<Rightarrow> nat" where
  "occurrences pat [] = 0"
| "occurrences pat (d # m) = (if starts_with pat (d # m) then 1 else 0) + occurrences pat m"

text \<open>A single preformatted block: \<^verbatim>\<open><pre\<close> is opened once and \<^verbatim>\<open></pre>\<close> closed once.\<close>

definition single_pre_block :: "string \<Rightarrow> bool" where
  "single_pre_block m = (occurrences ''<pre'' m = 1 \<and> occurrences ''</pre>'' m = 1)"

subsection \<open>Component state\<close>

text \<open>
  The first four fields are the \<^verbatim>\<open>useState\<close> cells of lines 50 to 53. \<open>rendered\<close> is
  the props of the latest render, whose \<^verbatim>\<open>html\<close> is the dependency the layout effect
  was last run for. \<open>clipboard\<close> lists the arguments of the \<^verbatim>\<open>writeText\<close> calls so far,
  oldest first; \<open>timers\<close> lists the due times of the \<^verbatim>\<open>setTimeout\<close> callbacks that
  have not run yet, oldest first; \<open>now\<close> is the clock.
\<close>

record component =
  copied :: bool
  isCollapsed :: bool
  needsFolding :: bool
  contentHeight :: int
  rendered :: props
  clipboard :: "string list"
  timers :: "nat list"
  now :: nat

text \<open>
  Reading \<^verbatim>\<open>contentRef.current.scrollHeight\<close>. The argument is the value of
  \<^verbatim>\<open>contentRef.current\<close>: \<open>None\<close> for \<^verbatim>\<open>null\<close>, otherwise the \<^verbatim>\<open>scrollHeight\<close> of the
  element. A property read on \<^verbatim>\<open>null\<close> throws.
\<close>

datatype js_error = TypeError

definition scrollHeight_of :: "int option \<Rightarrow> js_error + int" where
  "scrollHeight_of current = (case current of None \<Rightarrow> Inl TypeError | Some h \<Rightarrow> Inr h)"

text \<open>
  The body of the layout effect, lines 56 to 64. Both \<^verbatim>\<open>if\<close>s of the source are
  without an \<^verbatim>\<open>else\<close> branch.
\<close>

definition useLayoutEffect :: "int option \<Rightarrow> component \<Rightarrow> js_error + component" where
  "useLayoutEffect contentRef s =
     (if contentRef \<noteq> None
      then (case scrollHeight_of contentRef of
              Inl err \<Rightarrow> Inl err
            | Inr scrollHeight \<Rightarrow>
                if scrollHeight > FOLD_THRESHOLD + 50
                then Inr (s\<lparr>needsFolding := True, contentHeight := scrollHeight\<rparr>)
                else Inr s)
      else Inr s)"

text \<open>
  The first render: the initial values of the state cells, then the layout effect,
  which always runs after the first commit.
\<close>

definition mount :: "props \<Rightarrow> int option \<Rightarrow> js_error + component" where
  "mount p contentRef =
     useLayoutEffect contentRef
       \<lparr>copied = False, isCollapsed = True, needsFolding = False, contentHeight = 0,
        rendered = p, clipboard = [], timers = [], now = 0\<rparr>"

text \<open>
  A render with new props. The state cells keep their values; the layout effect runs
  again only when its dependency \<^verbatim>\<open>[html]\<close> has changed.
\<close>

definition rerender :: "props \<Rightarrow> int option \<Rightarrow> component \<Rightarrow> js_error + component" where
  "rerender p contentRef s =
     (if html p \<noteq> html (rendered s)
      then useLayoutEffect contentRef (s\<lparr>rendered := p\<rparr>)
      else Inr (s\<lparr>rendered := p\<rparr>))"

text \<open>\<^verbatim>\<open>handleCopy\<close>, lines 72 to 76. Nothing is done with the value of \<^verbatim>\<open>setTimeout\<close>.\<close>

definition handleCopy :: "component \<Rightarrow> component" where
  "handleCopy s =
     s\<lparr>clipboard := clipboard s @ [code (rendered s)],
       copied := True,
       timers := timers s @ [now s + 2000]\<rparr>"

text \<open>
  The \<open>i\<close>-th pending timer callback, \<^verbatim>\<open>() => setCopied(false)\<close>. The runtime calls it
  once, not before its due time; a call that is not possible changes nothing.
\<close>

definition timeout :: "nat \<Rightarrow> component \<Rightarrow> component" where
  "timeout i s =
     (if i < length (timers s) \<and> timers s ! i \<le> now s
      then s\<lparr>copied := False, timers := take i (timers s) @ drop (Suc i) (timers s)\<rparr>
      else s)"

definition elapse :: "nat \<Rightarrow> component \<Rightarrow> component" where
  "elapse ms s = s\<lparr>now := now s + ms\<rparr>"

text \<open>
  The expand button, lines 161 to 179: it is rendered only while \<open>needsFolding\<close>, it is
  disabled when \<open>isCollapsed\<close> is false, and its handler is \<^verbatim>\<open>setIsCollapsed(false)\<close>.
\<close>

definition expand_rendered :: "component \<Rightarrow> bool" where
  "expand_rendered s = needsFolding s"

definition expand_disabled :: "component \<Rightarrow> bool" where
  "expand_disabled s = (\<not> isCollapsed s)"

definition expand :: "component \<Rightarrow> component" where
  "expand s =
     (if expand_rendered s \<and> \<not> expand_disabled s then s\<lparr>isCollapsed := False\<rparr> else s)"

text \<open>
  The \<^verbatim>\<open>style\<close> of the folding wrapper, lines 134 to 138: \<open>None\<close> is \<^verbatim>\<open>undefined\<close>,
  \<open>Some h\<close> is \<^verbatim>\<open>{ maxHeight: h }\<close>.
\<close>

definition maxHeight :: "component \<Rightarrow> int option" where
  "maxHeight s =
     (if needsFolding s
      then Some (if isCollapsed s then FOLD_THRESHOLD else contentHeight s)
      else None)"

subsection \<open>Runs of the component\<close>

datatype event =
    Rerender props "int option"
  | ClickExpand
  | ClickCopy
  | Elapse nat
  | Timeout nat

fun step :: "component \<Rightarrow> event \<Rightarrow> js_error + component" where
  "step s (Rerender p contentRef) = rerender p contentRef s"
| "step s ClickExpand = Inr (expand s)"
| "step s ClickCopy = Inr (handleCopy s)"
| "step s (Elapse ms) = Inr (elapse ms s)"
| "step s (Timeout i) = Inr (timeout i s)"

text \<open>An exception ends the run.\<close>

fun run :: "component \<Rightarrow> event list \<Rightarrow> js_error + component" where
  "run s [] = Inr s"
| "run s (e # es) = (case step s e of Inl err \<Rightarrow> Inl err | Inr s' \<Rightarrow> run s' es)"

text \<open>The life of one component instance: the first render, then the events.\<close>

definition launch :: "props \<Rightarrow> int option \<Rightarrow> event list \<Rightarrow> js_error + component" where
  "launch p contentRef es =
     (case mount p contentRef of Inl err \<Rightarrow> Inl err | Inr s \<Rightarrow> run s es)"

text \<open>An event that leaves the injected markup \<open>m\<close> as it is.\<close>

fun keeps_markup :: "string \<Rightarrow> event \<Rightarrow> bool" where
  "keeps_markup m (Rerender p contentRef) = (html p = m)"
| "keeps_markup m e = True"

text \<open>The milliseconds that pass during a list of events.\<close>

fun elapsed :: "event list \<Rightarrow> nat" where
  "elapsed [] = 0"
| "elapsed (Elapse ms # es) = ms + elapsed es"
| "elapsed (e # es) = elapsed es"

section \<open>Basic facts\<close>

subsection \<open>The layout effect and the renders\<close>

lemma useLayoutEffect_Some:
  "useLayoutEffect (Some h) s =
     Inr (if h > 450 then s\<lparr>needsFolding := True, contentHeight := h\<rparr> else s)"
  by (simp add: useLayoutEffect_def scrollHeight_of_def FOLD_THRESHOLD_def)

lemma useLayoutEffect_None: "useLayoutEffect None s = Inr s"
  by (simp add: useLayoutEffect_def)

lemma useLayoutEffect_returns:
  "\<exists>s'. useLayoutEffect r s = Inr s' \<and> copied s' = copied s \<and> isCollapsed s' = isCollapsed s
      \<and> rendered s' = rendered s \<and> clipboard s' = clipboard s \<and> timers s' = timers s
      \<and> now s' = now s \<and> (needsFolding s \<longrightarrow> needsFolding s')"
  by (cases r) (simp_all add: useLayoutEffect_None useLayoutEffect_Some)

lemma rerender_returns:
  "\<exists>s'. rerender p r s = Inr s' \<and> copied s' = copied s \<and> isCollapsed s' = isCollapsed s
      \<and> rendered s' = p \<and> clipboard s' = clipboard s \<and> timers s' = timers s
      \<and> now s' = now s \<and> (needsFolding s \<longrightarrow> needsFolding s')"
  using useLayoutEffect_returns [of r "s\<lparr>rendered := p\<rparr>"]
  by (auto simp: rerender_def)

lemma step_returns: "\<exists>s'. step s e = Inr s'"
  using rerender_returns by (cases e) fastforce+

lemma run_returns: "\<exists>s'. run s es = Inr s'"
proof (induction es arbitrary: s)
  case Nil
  show ?case by simp
next
  case (Cons e es)
  obtain t where "step s e = Inr t" using step_returns by blast
  with Cons.IH [of t] show ?case by simp
qed



lemma step_keeps_unfolded:
  assumes "step s e = Inr t" and "\<not> needsFolding s" and "keeps_markup (html (rendered s)) e"
  shows "\<not> needsFolding t \<and> html (rendered t) = html (rendered s)"
proof (cases e)
  case (Rerender p r)
  with assms show ?thesis by (auto simp: rerender_def)
next
  case ClickExpand
  with assms show ?thesis by (auto simp: expand_def split: if_splits)
next
  case ClickCopy
  with assms show ?thesis by (auto simp: handleCopy_def)
next
  case (Elapse ms)
  with assms show ?thesis by (auto simp: elapse_def)
next
  case (Timeout i)
  with assms show ?thesis by (auto simp: timeout_def split: if_splits)
qed

lemma run_keeps_unfolded:
  "\<not> needsFolding s \<Longrightarrow> list_all (keeps_markup (html (rendered s))) es
     \<Longrightarrow> \<exists>t. run s es = Inr t \<and> \<not> needsFolding t"
proof (induction es arbitrary: s)
  case Nil
  then show ?case by simp
next
  case (Cons e es)
  obtain u where u: "step s e = Inr u" using step_returns by blast
  from Cons.prems have "keeps_markup (html (rendered s)) e" by simp
  with u Cons.prems(1) have k: "\<not> needsFolding u \<and> html (rendered u) = html (rendered s)"
    by (rule step_keeps_unfolded)
  with Cons.prems have "list_all (keeps_markup (html (rendered u))) es" by simp
  with Cons.IH [of u] k u show ?case by simp
qed

lemma step_keeps_copied:
  assumes "step s e = Inr t" and "copied s" and "elapsed (e # es) < 2000"
    and "\<forall>d \<in> set (timers s). now s + elapsed (e # es) < d"
  shows "copied t \<and> elapsed es < 2000 \<and> (\<forall>d \<in> set (timers t). now t + elapsed es < d)"
proof (cases e)
  case (Rerender p r)
  with assms rerender_returns [of p r s] show ?thesis by auto
next
  case ClickExpand
  with assms show ?thesis by (auto simp: expand_def split: if_splits)
next
  case ClickCopy
  with assms show ?thesis by (auto simp: handleCopy_def)
next
  case (Elapse ms)
  with assms show ?thesis by (fastforce simp: elapse_def add.assoc)
next
  case (Timeout i)
  from assms(4) have "i < length (timers s) \<Longrightarrow> now s < timers s ! i"
    by (metis nth_mem add_lessD1)
  then have "timeout i s = s" by (auto simp: timeout_def)
  with Timeout assms show ?thesis by auto
qed

lemma run_keeps_copied:
  "copied s \<Longrightarrow> elapsed es < 2000 \<Longrightarrow> \<forall>d \<in> set (timers s). now s + elapsed es < d
     \<Longrightarrow> \<exists>t. run s es = Inr t \<and> copied t"
proof (induction es arbitrary: s)
  case Nil
  then show ?case by simp
next
  case (Cons e es)
  obtain u where u: "step s e = Inr u" using step_returns by blast
  from step_keeps_copied [OF u Cons.prems]
  have "copied u" "elapsed es < 2000" "\<forall>d \<in> set (timers u). now u + elapsed es < d"
    by simp_all
  from Cons.IH [OF this] u show ?case by simp
qed

lemma useLayoutEffect_never_throws: "useLayoutEffect r s \<noteq> Inl err"
  using useLayoutEffect_returns [of r s] by auto

lemma mount_Some:
  "mount p (Some h) =
     Inr \<lparr>copied = False, isCollapsed = True, needsFolding = (h > 450),
          contentHeight = (if h > 450 then h else 0),
          rendered = p, clipboard = [], timers = [], now = 0\<rparr>"
  by (simp add: mount_def useLayoutEffect_Some)

lemma mount_None:
  "mount p None =
     Inr \<lparr>copied = False, isCollapsed = True, needsFolding = False, contentHeight = 0,
          rendered = p, clipboard = [], timers = [], now = 0\<rparr>"
  by (simp add: mount_def useLayoutEffect_None)

lemma fallback_differs: "fallback p \<noteq> code p"
proof
  assume "fallback p = code p"
  then have "length (fallback p) = length (code p)" by simp
  then show False by (simp add: fallback_def fallback_close_def)
qed

lemma launch_returns: "\<exists>s. launch p r es = Inr s"
proof -
  obtain s0 where "mount p r = Inr s0"
    using useLayoutEffect_returns by (auto simp: mount_def)
  then show ?thesis using run_returns [of s0 es] by (simp add: launch_def)
qed

subsection \<open>The fallback markup\<close>

lemma fallback_literal:
  "fallback p =
     ''<pre class=\"shiki font-mono text-sm leading-relaxed whitespace-pre-wrap text-(--fuwari-btn-content) bg-transparent! p-0 m-0 border-0\"><code>''
       @ code p @ ''</code></pre>''"
  by (simp only: fallback_def fallback_open_def fallback_close_def)

lemma fallback_code_at:
  "take (length (code p)) (drop (length fallback_open) (fallback p)) = code p"
  by (simp add: fallback_def)

lemma html_no_highlight: "html (p\<lparr>highlightedHtml := None\<rparr>) = fallback p"
  by (simp add: html_def fallback_def)

lemma fallback_script:
  "fallback (p\<lparr>code := ''</code><script>alert(1)</script>''\<rparr>) =
     ''<pre class=\"shiki font-mono text-sm leading-relaxed whitespace-pre-wrap text-(--fuwari-btn-content) bg-transparent! p-0 m-0 border-0\"><code></code><script>alert(1)</script></code></pre>''"
  by (simp add: fallback_def fallback_open_def fallback_close_def)

lemma html_is_fallback:
  "highlightedHtml p = None \<or> highlightedHtml p = Some [] \<Longrightarrow> html p = fallback p"
  by (auto simp: html_def)

lemma html_depends_on:
  "code q = code p \<Longrightarrow> highlightedHtml q = highlightedHtml p \<Longrightarrow> html q = html p"
  by (simp add: html_def fallback_def split: option.splits)

lemma occurrences_skip:
  "c \<notin> set xs \<Longrightarrow> occurrences (c # pat) (xs @ m) = occurrences (c # pat) m"
  by (induction xs) auto

lemma pre_opened_in_fallback_open:
  "occurrences ''<pre'' (fallback_open @ m) = 1 + occurrences ''<pre'' m"
  by (simp add: fallback_open_def)

lemma pre_closed_in_fallback_open:
  "occurrences ''</pre>'' (fallback_open @ m) = occurrences ''</pre>'' m"
  by (simp add: fallback_open_def)

lemma pre_in_fallback_close:
  "occurrences ''<pre'' fallback_close = 0" "occurrences ''</pre>'' fallback_close = 1"
  by (simp_all add: fallback_close_def)

lemma fallback_single_pre_block:
  "CHR ''<'' \<notin> set (code p) \<Longrightarrow> single_pre_block (fallback p)"
  by (simp add: single_pre_block_def fallback_def pre_opened_in_fallback_open
      pre_closed_in_fallback_open occurrences_skip pre_in_fallback_close)

section \<open>Properties of the component\<close>

subsection \<open>Markup\<close>

text \<open>
  C10. The fallback markup is the fixed opening text, then the code, then the fixed
  closing text, joined as strings. The code sits in the result unchanged, right after
  the opening text, whatever characters it holds; for the code
  \<^verbatim>\<open></code><script>alert(1)</script>\<close> the markup holds these characters as they are.
\<close>

theorem fallback_inserts_code_raw:
  "fallback p =
     ''<pre class=\"shiki font-mono text-sm leading-relaxed whitespace-pre-wrap text-(--fuwari-btn-content) bg-transparent! p-0 m-0 border-0\"><code>''
       @ code p @ ''</code></pre>''
   \<and> take (length (code p)) (drop (length fallback_open) (fallback p)) = code p
   \<and> html (p\<lparr>highlightedHtml := None\<rparr>) = fallback p
   \<and> fallback (p\<lparr>code := ''</code><script>alert(1)</script>''\<rparr>) =
       ''<pre class=\"shiki font-mono text-sm leading-relaxed whitespace-pre-wrap text-(--fuwari-btn-content) bg-transparent! p-0 m-0 border-0\"><code></code><script>alert(1)</script></code></pre>''"
proof (intro conjI)
  show "take (length (code p)) (drop (length fallback_open) (fallback p)) = code p"
    by (rule fallback_code_at)
  show "html (p\<lparr>highlightedHtml := None\<rparr>) = fallback p"
    by (rule html_no_highlight)
qed (rule fallback_literal fallback_script)+

text \<open>
  C7, as stated, fails for a code text that holds markup of its own. For the code
  \<^verbatim>\<open></code></pre><pre><code>\<close> and no highlighted markup, the displayed markup closes
  the block it opened and opens a second one: it is not a single preformatted block
  around the literal code text.
\<close>

theorem code_with_markup_opens_second_block:
  "html \<lparr>code = ''</code></pre><pre><code>'', language = None, highlightedHtml = None\<rparr> =
     ''<pre class=\"shiki font-mono text-sm leading-relaxed whitespace-pre-wrap text-(--fuwari-btn-content) bg-transparent! p-0 m-0 border-0\"><code></code></pre><pre><code></code></pre>''
   \<and> occurrences ''<pre''
        (html \<lparr>code = ''</code></pre><pre><code>'', language = None, highlightedHtml = None\<rparr>) = 2
   \<and> \<not> single_pre_block
        (html \<lparr>code = ''</code></pre><pre><code>'', language = None, highlightedHtml = None\<rparr>)"
proof -
  let ?p = "\<lparr>code = ''</code></pre><pre><code>'', language = None, highlightedHtml = None\<rparr>"
  have h: "html ?p = fallback ?p" by (simp add: html_is_fallback)
  have l: "fallback ?p =
     ''<pre class=\"shiki font-mono text-sm leading-relaxed whitespace-pre-wrap text-(--fuwari-btn-content) bg-transparent! p-0 m-0 border-0\"><code></code></pre><pre><code></code></pre>''"
    by (simp add: fallback_def fallback_open_def fallback_close_def)
  have n: "occurrences ''<pre'' (fallback ?p) = 2"
    by (simp add: fallback_def pre_opened_in_fallback_open fallback_close_def)
  then have s: "\<not> single_pre_block (fallback ?p)" by (simp add: single_pre_block_def)
  have "html ?p =
     ''<pre class=\"shiki font-mono text-sm leading-relaxed whitespace-pre-wrap text-(--fuwari-btn-content) bg-transparent! p-0 m-0 border-0\"><code></code></pre><pre><code></code></pre>''"
    unfolding h by (rule l)
  moreover have "occurrences ''<pre'' (html ?p) = 2" unfolding h by (rule n)
  moreover have "\<not> single_pre_block (html ?p)" unfolding h by (rule s)
  ultimately show ?thesis by (intro conjI)
qed

text \<open>
  C7, amended. The displayed markup is a function of \<open>code\<close> and \<open>highlightedHtml\<close>
  alone. A non-empty \<open>highlightedHtml\<close> is displayed as it is. Without one (absent or
  empty) the markup is the fixed text \<^verbatim>\<open><pre class="..."><code>\<close>, then the code text
  character for character, then \<^verbatim>\<open></code></pre>\<close>, with nothing added to or taken from
  its length. It is a single preformatted block whenever the code text holds no
  \<^verbatim>\<open><\<close>.
\<close>

theorem html_adapter:
  "(highlightedHtml p = Some h \<and> h \<noteq> [] \<longrightarrow> html p = h)
   \<and> (highlightedHtml p = None \<or> highlightedHtml p = Some [] \<longrightarrow>
        html p =
          ''<pre class=\"shiki font-mono text-sm leading-relaxed whitespace-pre-wrap text-(--fuwari-btn-content) bg-transparent! p-0 m-0 border-0\"><code>''
            @ code p @ ''</code></pre>''
        \<and> html p = fallback_open @ code p @ fallback_close
        \<and> take (length (code p)) (drop (length fallback_open) (html p)) = code p
        \<and> length (html p) = length fallback_open + length (code p) + length fallback_close
        \<and> (CHR ''<'' \<notin> set (code p) \<longrightarrow> single_pre_block (html p)))
   \<and> (code q = code p \<and> highlightedHtml q = highlightedHtml p \<longrightarrow> html q = html p)"
proof (intro conjI impI)
  assume "highlightedHtml p = Some h \<and> h \<noteq> []"
  then show "html p = h" by (simp add: html_def)
next
  assume "code q = code p \<and> highlightedHtml q = highlightedHtml p"
  then show "html q = html p" by (elim conjE) (rule html_depends_on)
next
  assume a: "highlightedHtml p = None \<or> highlightedHtml p = Some []"
  then have h: "html p = fallback p" by (rule html_is_fallback)
  show "html p =
          ''<pre class=\"shiki font-mono text-sm leading-relaxed whitespace-pre-wrap text-(--fuwari-btn-content) bg-transparent! p-0 m-0 border-0\"><code>''
            @ code p @ ''</code></pre>''"
    by (simp only: h) (rule fallback_literal)
  show "html p = fallback_open @ code p @ fallback_close"
    by (simp only: h fallback_def)
  show "take (length (code p)) (drop (length fallback_open) (html p)) = code p"
    by (simp only: h) (rule fallback_code_at)
  show "length (html p) = length fallback_open + length (code p) + length fallback_close"
    by (simp add: h fallback_def)
  show "single_pre_block (html p)" if "CHR ''<'' \<notin> set (code p)"
    using that by (simp only: h) (rule fallback_single_pre_block)
qed

theorem html_adapter_witness:
  "html \<lparr>code = [CHR ''a'', CHR 0x0A, CHR '' '', CHR ''b''], language = Some ''py'',
         highlightedHtml = Some ''<b>a</b>''\<rparr> = ''<b>a</b>''
   \<and> html \<lparr>code = [CHR ''a'', CHR 0x0A, CHR '' '', CHR ''b''], language = Some ''py'',
           highlightedHtml = None\<rparr>
       = fallback_open @ [CHR ''a'', CHR 0x0A, CHR '' '', CHR ''b''] @ fallback_close
   \<and> CHR ''<'' \<notin> set [CHR ''a'', CHR 0x0A, CHR '' '', CHR ''b'']
   \<and> single_pre_block (html \<lparr>code = [CHR ''a'', CHR 0x0A, CHR '' '', CHR ''b''],
           language = Some ''py'', highlightedHtml = None\<rparr>)
   \<and> html \<lparr>code = ''a'', language = None, highlightedHtml = Some []\<rparr>
       = html \<lparr>code = ''a'', language = Some ''py'', highlightedHtml = Some []\<rparr>"
proof -
  let ?c = "[CHR ''a'', CHR 0x0A, CHR '' '', CHR ''b'']"
  let ?n = "\<lparr>code = ?c, language = Some ''py'', highlightedHtml = None\<rparr>"
  have "html \<lparr>code = ?c, language = Some ''py'', highlightedHtml = Some ''<b>a</b>''\<rparr>
      = ''<b>a</b>''"
    using html_adapter [of "\<lparr>code = ?c, language = Some ''py'',
         highlightedHtml = Some ''<b>a</b>''\<rparr>" "''<b>a</b>''"]
    by simp
  moreover have n: "highlightedHtml ?n = None \<or> highlightedHtml ?n = Some []" by simp
  note r = html_adapter [of ?n "[]", THEN conjunct2, THEN conjunct1, THEN mp, OF n]
  have "html ?n = fallback_open @ ?c @ fallback_close"
    using r [THEN conjunct2, THEN conjunct1] by simp
  moreover have c: "CHR ''<'' \<notin> set ?c" by simp
  moreover have "single_pre_block (html ?n)"
    using r [THEN conjunct2, THEN conjunct2, THEN conjunct2, THEN conjunct2, THEN mp] c
    by simp
  moreover have "html \<lparr>code = ''a'', language = None, highlightedHtml = Some []\<rparr>
       = html \<lparr>code = ''a'', language = Some ''py'', highlightedHtml = Some []\<rparr>"
    using html_adapter [of "\<lparr>code = ''a'', language = Some ''py'', highlightedHtml = Some []\<rparr>" "[]"
       "\<lparr>code = ''a'', language = None, highlightedHtml = Some []\<rparr>"]
    by simp
  ultimately show ?thesis by (intro conjI)
qed

subsection \<open>Copying\<close>

text \<open>
  C8. \<^verbatim>\<open>handleCopy\<close> hands exactly the \<open>code\<close> prop of the current render to the
  clipboard, once: on a freshly mounted component, after a render with new props, and
  in any other state. What is written is not the markup whenever the markup differs
  from the code, which it always does when the fallback is displayed.
\<close>

theorem copy_writes_raw_code:
  "clipboard (handleCopy s) = clipboard s @ [code (rendered s)]
   \<and> step s ClickCopy = Inr (handleCopy s)
   \<and> (html (rendered s) \<noteq> code (rendered s) \<longrightarrow>
        last (clipboard (handleCopy s)) \<noteq> html (rendered s))
   \<and> (highlightedHtml (rendered s) = None \<longrightarrow> html (rendered s) \<noteq> code (rendered s))
   \<and> (\<exists>s0. mount p r = Inr s0 \<and> clipboard (handleCopy s0) = [code p])
   \<and> (\<exists>s1. rerender p r s = Inr s1 \<and> clipboard (handleCopy s1) = clipboard s @ [code p])"
proof -
  have "highlightedHtml (rendered s) = None \<longrightarrow> html (rendered s) \<noteq> code (rendered s)"
    by (simp add: html_def fallback_differs)
  moreover have "\<exists>s0. mount p r = Inr s0 \<and> clipboard (handleCopy s0) = [code p]"
    by (cases r) (simp_all add: mount_None mount_Some handleCopy_def)
  moreover have "\<exists>s1. rerender p r s = Inr s1 \<and> clipboard (handleCopy s1) = clipboard s @ [code p]"
    using rerender_returns [of p r s] by (auto simp: handleCopy_def)
  ultimately show ?thesis by (simp add: handleCopy_def)
qed

theorem copy_writes_raw_code_witness:
  "launch \<lparr>code = ''x < y'', language = None, highlightedHtml = Some ''<pre>x &lt; y</pre>''\<rparr>
      (Some 20) [ClickCopy]
     = Inr \<lparr>copied = True, isCollapsed = True, needsFolding = False, contentHeight = 0,
            rendered = \<lparr>code = ''x < y'', language = None,
                         highlightedHtml = Some ''<pre>x &lt; y</pre>''\<rparr>,
            clipboard = [''x < y''], timers = [2000], now = 0\<rparr>"
  using copy_writes_raw_code [of "\<lparr>copied = False, isCollapsed = True, needsFolding = False, contentHeight = 0,
            rendered = \<lparr>code = ''x < y'', language = None,
                         highlightedHtml = Some ''<pre>x &lt; y</pre>''\<rparr>,
            clipboard = [], timers = [], now = 0\<rparr>"]
  by (simp add: launch_def mount_Some handleCopy_def)

text \<open>
  C3, as stated, fails. \<^verbatim>\<open>handleCopy\<close> keeps no handle of the timer it starts and
  never cancels one: a second copy 1500 ms after the first leaves two pending timers,
  due at 2000 and at 3500, and when the first of them runs, at 2000, \<open>copied\<close> becomes
  false only 500 ms after the last invocation.
\<close>

theorem second_copy_keeps_first_timer:
  "map_sum id timers
     (launch \<lparr>code = ''a'', language = None, highlightedHtml = None\<rparr> None
        [ClickCopy, Elapse 1500, ClickCopy]) = Inr [2000, 3500]
   \<and> map_sum id copied
     (launch \<lparr>code = ''a'', language = None, highlightedHtml = None\<rparr> None
        [ClickCopy, Elapse 1500, ClickCopy, Elapse 500, Timeout 0]) = Inr False
   \<and> map_sum id now
     (launch \<lparr>code = ''a'', language = None, highlightedHtml = None\<rparr> None
        [ClickCopy, Elapse 1500, ClickCopy, Elapse 500, Timeout 0]) = Inr 2000"
  by (simp add: launch_def mount_None handleCopy_def elapse_def timeout_def)

text \<open>
  C3, amended. Every invocation of copy sets \<open>copied\<close> at once and adds one timer, due
  2000 ms later, to the pending ones, which all stay. A timer does not run before it is
  due; when it runs it sets \<open>copied\<close> to false and leaves the list of pending timers,
  the others staying. So \<open>copied\<close> stays true, whatever else happens, for as long as
  less than 2000 ms have passed and no earlier timer has come due; in particular for
  the 2000 ms after an invocation that found no timer pending.
\<close>

theorem copy_adds_a_timer:
  "copied (handleCopy s)
   \<and> timers (handleCopy s) = timers s @ [now s + 2000]
   \<and> step s (Timeout i) = Inr (timeout i s)
   \<and> (i < length (timers s) \<and> now s < timers s ! i \<longrightarrow> timeout i s = s)
   \<and> (i < length (timers s) \<and> timers s ! i \<le> now s \<longrightarrow>
        \<not> copied (timeout i s)
        \<and> timers (timeout i s) = take i (timers s) @ drop (Suc i) (timers s)
        \<and> Suc (length (timers (timeout i s))) = length (timers s))
   \<and> (timers s = [] \<and> elapsed es < 2000 \<longrightarrow>
        (\<exists>t. run (handleCopy s) es = Inr t \<and> copied t))
   \<and> ((\<forall>d \<in> set (timers s). now s + elapsed es < d) \<and> elapsed es < 2000 \<longrightarrow>
        (\<exists>t. run (handleCopy s) es = Inr t \<and> copied t))"
proof -
  have keep: "\<exists>t. run (handleCopy s) es = Inr t \<and> copied t"
    if "\<forall>d \<in> set (timers s). now s + elapsed es < d" and "elapsed es < 2000"
  proof (rule run_keeps_copied)
    show "copied (handleCopy s)" by (simp add: handleCopy_def)
    show "elapsed es < 2000" by (rule that)
    show "\<forall>d \<in> set (timers (handleCopy s)). now (handleCopy s) + elapsed es < d"
      using that by (simp add: handleCopy_def)
  qed
  show ?thesis
  proof (intro conjI)
    show "copied (handleCopy s)" by (simp add: handleCopy_def)
    show "timers (handleCopy s) = timers s @ [now s + 2000]" by (simp add: handleCopy_def)
    show "step s (Timeout i) = Inr (timeout i s)" by simp
    show "i < length (timers s) \<and> now s < timers s ! i \<longrightarrow> timeout i s = s"
      by (simp add: timeout_def)
    show "i < length (timers s) \<and> timers s ! i \<le> now s \<longrightarrow>
        \<not> copied (timeout i s)
        \<and> timers (timeout i s) = take i (timers s) @ drop (Suc i) (timers s)
        \<and> Suc (length (timers (timeout i s))) = length (timers s)"
      by (auto simp: timeout_def)
    show "timers s = [] \<and> elapsed es < 2000 \<longrightarrow>
        (\<exists>t. run (handleCopy s) es = Inr t \<and> copied t)"
      using keep by simp
    show "(\<forall>d \<in> set (timers s). now s + elapsed es < d) \<and> elapsed es < 2000 \<longrightarrow>
        (\<exists>t. run (handleCopy s) es = Inr t \<and> copied t)"
      using keep by simp
  qed
qed

theorem copy_adds_a_timer_witness:
  "elapsed [Elapse 999, Timeout 0] < 2000
   \<and> run (handleCopy
        \<lparr>copied = True, isCollapsed = True, needsFolding = False, contentHeight = 0,
         rendered = \<lparr>code = ''a'', language = None, highlightedHtml = None\<rparr>,
         clipboard = [''a''], timers = [2000], now = 1000\<rparr>) [Elapse 999, Timeout 0]
     = Inr \<lparr>copied = True, isCollapsed = True, needsFolding = False, contentHeight = 0,
            rendered = \<lparr>code = ''a'', language = None, highlightedHtml = None\<rparr>,
            clipboard = [''a'', ''a''], timers = [2000, 3000], now = 1999\<rparr>
   \<and> timeout 0
        \<lparr>copied = True, isCollapsed = True, needsFolding = False, contentHeight = 0,
         rendered = \<lparr>code = ''a'', language = None, highlightedHtml = None\<rparr>,
         clipboard = [''a'', ''a''], timers = [2000, 3000], now = 2000\<rparr>
     = \<lparr>copied = False, isCollapsed = True, needsFolding = False, contentHeight = 0,
        rendered = \<lparr>code = ''a'', language = None, highlightedHtml = None\<rparr>,
        clipboard = [''a'', ''a''], timers = [3000], now = 2000\<rparr>
   \<and> timeout 1
        \<lparr>copied = True, isCollapsed = True, needsFolding = False, contentHeight = 0,
         rendered = \<lparr>code = ''a'', language = None, highlightedHtml = None\<rparr>,
         clipboard = [''a'', ''a''], timers = [2000, 3000], now = 2000\<rparr>
     = \<lparr>copied = True, isCollapsed = True, needsFolding = False, contentHeight = 0,
        rendered = \<lparr>code = ''a'', language = None, highlightedHtml = None\<rparr>,
        clipboard = [''a'', ''a''], timers = [2000, 3000], now = 2000\<rparr>
   \<and> launch \<lparr>code = ''a'', language = None, highlightedHtml = None\<rparr> None
        [ClickCopy, Elapse 1999, Timeout 0]
     = Inr \<lparr>copied = True, isCollapsed = True, needsFolding = False, contentHeight = 0,
            rendered = \<lparr>code = ''a'', language = None, highlightedHtml = None\<rparr>,
            clipboard = [''a''], timers = [2000], now = 1999\<rparr>"
proof -
  let ?a = "\<lparr>code = ''a'', language = None, highlightedHtml = None\<rparr>"
  let ?s0 = "\<lparr>copied = False, isCollapsed = True, needsFolding = False, contentHeight = 0,
         rendered = ?a, clipboard = [], timers = [], now = 0\<rparr>"
  let ?s1 = "\<lparr>copied = True, isCollapsed = True, needsFolding = False, contentHeight = 0,
         rendered = ?a, clipboard = [''a''], timers = [2000], now = 1000\<rparr>"
  let ?s2 = "\<lparr>copied = True, isCollapsed = True, needsFolding = False, contentHeight = 0,
         rendered = ?a, clipboard = [''a'', ''a''], timers = [2000, 3000], now = 2000\<rparr>"
  let ?es = "[Elapse 999, Timeout 0]"
  have e: "elapsed ?es < 2000" by simp
  have p1: "(\<forall>d \<in> set (timers ?s1). now ?s1 + elapsed ?es < d) \<and> elapsed ?es < 2000" by simp
  have "\<exists>t. run (handleCopy ?s1) ?es = Inr t \<and> copied t"
    by (rule copy_adds_a_timer [of ?s1 0 ?es, THEN conjunct2, THEN conjunct2, THEN conjunct2, THEN conjunct2, THEN conjunct2, THEN conjunct2, THEN mp, OF p1])
  then have r1: "run (handleCopy ?s1) ?es
     = Inr \<lparr>copied = True, isCollapsed = True, needsFolding = False, contentHeight = 0,
            rendered = ?a, clipboard = [''a'', ''a''], timers = [2000, 3000], now = 1999\<rparr>"
    by (simp add: handleCopy_def elapse_def timeout_def)
  have p2: "0 < length (timers ?s2) \<and> timers ?s2 ! 0 \<le> now ?s2" by simp
  have "\<not> copied (timeout 0 ?s2)
      \<and> timers (timeout 0 ?s2) = take 0 (timers ?s2) @ drop (Suc 0) (timers ?s2)
      \<and> Suc (length (timers (timeout 0 ?s2))) = length (timers ?s2)"
    by (rule copy_adds_a_timer [of ?s2 0 "[]", THEN conjunct2, THEN conjunct2, THEN conjunct2, THEN conjunct2, THEN conjunct1, THEN mp, OF p2])
  then have r2: "timeout 0 ?s2 = ?s2\<lparr>copied := False, timers := [3000]\<rparr>"
    by (simp add: timeout_def)
  have p3: "1 < length (timers ?s2) \<and> now ?s2 < timers ?s2 ! 1" by simp
  have r3: "timeout 1 ?s2 = ?s2"
    by (rule copy_adds_a_timer [of ?s2 1 "[]", THEN conjunct2, THEN conjunct2, THEN conjunct2, THEN conjunct1, THEN mp, OF p3])
  have p4: "timers ?s0 = [] \<and> elapsed [Elapse 1999, Timeout 0] < 2000" by simp
  have "\<exists>t. run (handleCopy ?s0) [Elapse 1999, Timeout 0] = Inr t \<and> copied t"
    by (rule copy_adds_a_timer [of ?s0 0 "[Elapse 1999, Timeout 0]", THEN conjunct2, THEN conjunct2, THEN conjunct2, THEN conjunct2, THEN conjunct2, THEN conjunct1, THEN mp, OF p4])
  then have r4: "launch ?a None [ClickCopy, Elapse 1999, Timeout 0]
     = Inr \<lparr>copied = True, isCollapsed = True, needsFolding = False, contentHeight = 0,
            rendered = ?a, clipboard = [''a''], timers = [2000], now = 1999\<rparr>"
    by (simp add: launch_def mount_None handleCopy_def elapse_def timeout_def)
  from r2 have r2': "timeout 0 ?s2
     = \<lparr>copied = False, isCollapsed = True, needsFolding = False, contentHeight = 0,
        rendered = ?a, clipboard = [''a'', ''a''], timers = [3000], now = 2000\<rparr>"
    by simp
  from e r1 r2' r3 r4 show ?thesis by (intro conjI)
qed

subsection \<open>Folding\<close>

text \<open>
  C1, as stated, fails for a measurement that follows a change of the markup. The
  first content is 1000 high and is folded; the markup then changes to a content 100
  high, which is measured; \<open>needsFolding\<close> is still true and the wrapper still carries
  the clamp of 400.
\<close>

theorem remeasured_short_content_is_clamped:
  "map_sum id needsFolding
     (launch \<lparr>code = ''a'', language = None, highlightedHtml = None\<rparr> (Some 1000)
        [Rerender \<lparr>code = ''b'', language = None, highlightedHtml = None\<rparr> (Some 100)])
     = Inr True
   \<and> map_sum id maxHeight
     (launch \<lparr>code = ''a'', language = None, highlightedHtml = None\<rparr> (Some 1000)
        [Rerender \<lparr>code = ''b'', language = None, highlightedHtml = None\<rparr> (Some 100)])
     = Inr (Some 400)"
  by (simp add: launch_def mount_Some rerender_def html_def fallback_def
      useLayoutEffect_Some maxHeight_def FOLD_THRESHOLD_def)

text \<open>
  C1, amended. For the measurement of a freshly mounted component with height \<open>H\<close>: if
  \<open>H > 450\<close> then \<open>needsFolding\<close> is true, the measured height is \<open>H\<close> and the block is
  collapsed with a clamp of 400; if \<open>H \<le> 450\<close> then \<open>needsFolding\<close> is false and stays
  false, with no clamp whatever the collapse flag, for as long as the markup stays the
  same. For a measurement in any state: with \<open>H > 450\<close> it sets \<open>needsFolding\<close> and the
  measured height and keeps the collapse flag; with \<open>H \<le> 450\<close> it changes nothing.
\<close>

theorem first_measurement_threshold:
  "(450 < H \<longrightarrow>
      (\<exists>s. mount p (Some H) = Inr s \<and> needsFolding s \<and> contentHeight s = H
         \<and> isCollapsed s \<and> maxHeight s = Some 400))
   \<and> (H \<le> 450 \<longrightarrow>
      (\<exists>s. mount p (Some H) = Inr s \<and> \<not> needsFolding s
         \<and> (\<forall>es. list_all (keeps_markup (html p)) es \<longrightarrow>
               (\<exists>t. run s es = Inr t \<and> \<not> needsFolding t
                  \<and> (\<forall>b. maxHeight (t\<lparr>isCollapsed := b\<rparr>) = None)))))
   \<and> (450 < H \<longrightarrow>
      (\<exists>t. useLayoutEffect (Some H) s = Inr t \<and> needsFolding t \<and> contentHeight t = H
         \<and> isCollapsed t = isCollapsed s))
   \<and> (H \<le> 450 \<longrightarrow> useLayoutEffect (Some H) s = Inr s)"
proof (intro conjI impI)
  assume "450 < H"
  then show "\<exists>s. mount p (Some H) = Inr s \<and> needsFolding s \<and> contentHeight s = H
         \<and> isCollapsed s \<and> maxHeight s = Some 400"
    by (simp add: mount_Some maxHeight_def FOLD_THRESHOLD_def)
next
  assume H: "H \<le> 450"
  define s0 where "s0 = \<lparr>copied = False, isCollapsed = True, needsFolding = False,
      contentHeight = 0, rendered = p, clipboard = [], timers = [], now = 0\<rparr>"
  have m: "mount p (Some H) = Inr s0" using H by (simp add: mount_Some s0_def)
  have n: "\<not> needsFolding s0" and r: "rendered s0 = p" by (simp_all add: s0_def)
  have "\<exists>t. run s0 es = Inr t \<and> \<not> needsFolding t
                  \<and> (\<forall>b. maxHeight (t\<lparr>isCollapsed := b\<rparr>) = None)"
    if "list_all (keeps_markup (html p)) es" for es
    using run_keeps_unfolded [of s0 es] n r that by (auto simp: maxHeight_def)
  with m n show "\<exists>s. mount p (Some H) = Inr s \<and> \<not> needsFolding s
         \<and> (\<forall>es. list_all (keeps_markup (html p)) es \<longrightarrow>
               (\<exists>t. run s es = Inr t \<and> \<not> needsFolding t
                  \<and> (\<forall>b. maxHeight (t\<lparr>isCollapsed := b\<rparr>) = None)))"
    by blast
next
  assume "450 < H"
  then show "\<exists>t. useLayoutEffect (Some H) s = Inr t \<and> needsFolding t \<and> contentHeight t = H
         \<and> isCollapsed t = isCollapsed s"
    by (simp add: useLayoutEffect_Some)
next
  assume "H \<le> 450"
  then show "useLayoutEffect (Some H) s = Inr s" by (simp add: useLayoutEffect_Some)
qed

theorem first_measurement_threshold_witness:
  "(450::int) < 451
   \<and> mount \<lparr>code = ''a'', language = None, highlightedHtml = None\<rparr> (Some 451)
       = Inr \<lparr>copied = False, isCollapsed = True, needsFolding = True, contentHeight = 451,
              rendered = \<lparr>code = ''a'', language = None, highlightedHtml = None\<rparr>,
              clipboard = [], timers = [], now = 0\<rparr>
   \<and> (450::int) \<le> 450
   \<and> list_all (keeps_markup (html \<lparr>code = ''a'', language = None, highlightedHtml = None\<rparr>))
        [ClickExpand, ClickCopy,
         Rerender \<lparr>code = ''a'', language = Some ''py'', highlightedHtml = None\<rparr> (Some 900)]
   \<and> (\<exists>s. mount \<lparr>code = ''a'', language = None, highlightedHtml = None\<rparr> (Some 450) = Inr s
         \<and> (\<exists>t. run s [ClickExpand, ClickCopy,
                Rerender \<lparr>code = ''a'', language = Some ''py'', highlightedHtml = None\<rparr> (Some 900)]
               = Inr t \<and> maxHeight t = None))"
proof -
  let ?a = "\<lparr>code = ''a'', language = None, highlightedHtml = None\<rparr>"
  let ?es = "[ClickExpand, ClickCopy,
         Rerender \<lparr>code = ''a'', language = Some ''py'', highlightedHtml = None\<rparr> (Some 900)]"
  have h1: "(450::int) < 451" and h2: "(450::int) \<le> 450" by simp_all
  have k: "list_all (keeps_markup (html ?a)) ?es" by (simp add: html_def fallback_def)
  from first_measurement_threshold [of 451 ?a, THEN conjunct1, THEN mp, OF h1]
  obtain s1 where "mount ?a (Some 451) = Inr s1 \<and> needsFolding s1 \<and> contentHeight s1 = 451
      \<and> isCollapsed s1 \<and> maxHeight s1 = Some 400" ..
  then have a: "mount ?a (Some 451)
       = Inr \<lparr>copied = False, isCollapsed = True, needsFolding = True, contentHeight = 451,
              rendered = ?a, clipboard = [], timers = [], now = 0\<rparr>"
    by (simp add: mount_Some)
  from first_measurement_threshold [of 450 ?a, THEN conjunct2, THEN conjunct1, THEN mp, OF h2]
  obtain s where S: "mount ?a (Some 450) = Inr s \<and> \<not> needsFolding s
         \<and> (\<forall>es. list_all (keeps_markup (html ?a)) es \<longrightarrow>
               (\<exists>t. run s es = Inr t \<and> \<not> needsFolding t
                  \<and> (\<forall>b. maxHeight (t\<lparr>isCollapsed := b\<rparr>) = None)))" ..
  from S have s: "mount ?a (Some 450) = Inr s" by (rule conjunct1)
  from S have r: "\<forall>es. list_all (keeps_markup (html ?a)) es \<longrightarrow>
               (\<exists>t. run s es = Inr t \<and> \<not> needsFolding t
                  \<and> (\<forall>b. maxHeight (t\<lparr>isCollapsed := b\<rparr>) = None))"
    by (rule conjunct2 [THEN conjunct2])
  from r [rule_format, OF k] obtain t where "run s ?es = Inr t \<and> \<not> needsFolding t
                  \<and> (\<forall>b. maxHeight (t\<lparr>isCollapsed := b\<rparr>) = None)" ..
  then have t: "run s ?es = Inr t \<and> maxHeight t = None" by (simp add: maxHeight_def)
  have "\<exists>s. mount ?a (Some 450) = Inr s \<and> (\<exists>t. run s ?es = Inr t \<and> maxHeight t = None)"
    using s t by blast
  with h1 a h2 k show ?thesis by (intro conjI)
qed

text \<open>
  C9. With \<^verbatim>\<open>contentRef.current\<close> being \<^verbatim>\<open>null\<close> the layout effect returns the state
  it was given: no exception (the effect never throws, whatever the ref), no height
  recorded, \<open>needsFolding\<close> untouched; after the first render the component is as
  initialised, unclamped. The next render whose markup differs runs the effect again,
  and with an element \<open>H\<close> high, \<open>H > 450\<close>, the block is then folded.
\<close>

theorem effect_without_element_is_noop:
  "useLayoutEffect None s = Inr s
   \<and> useLayoutEffect r s \<noteq> Inl err
   \<and> mount p None =
       Inr \<lparr>copied = False, isCollapsed = True, needsFolding = False, contentHeight = 0,
            rendered = p, clipboard = [], timers = [], now = 0\<rparr>
   \<and> (\<exists>s0. mount p None = Inr s0 \<and> \<not> needsFolding s0 \<and> contentHeight s0 = 0
          \<and> maxHeight s0 = None
          \<and> (html p' \<noteq> html p \<longrightarrow>
                rerender p' (Some H) s0 = useLayoutEffect (Some H) (s0\<lparr>rendered := p'\<rparr>)
                \<and> (450 < H \<longrightarrow>
                      (\<exists>s1. rerender p' (Some H) s0 = Inr s1 \<and> needsFolding s1
                         \<and> contentHeight s1 = H \<and> maxHeight s1 = Some 400))))"
proof (intro conjI)
  show "useLayoutEffect None s = Inr s" by (rule useLayoutEffect_None)
  show "useLayoutEffect r s \<noteq> Inl err" by (rule useLayoutEffect_never_throws)
  show "mount p None =
       Inr \<lparr>copied = False, isCollapsed = True, needsFolding = False, contentHeight = 0,
            rendered = p, clipboard = [], timers = [], now = 0\<rparr>"
    by (rule mount_None)
  show "\<exists>s0. mount p None = Inr s0 \<and> \<not> needsFolding s0 \<and> contentHeight s0 = 0
          \<and> maxHeight s0 = None
          \<and> (html p' \<noteq> html p \<longrightarrow>
                rerender p' (Some H) s0 = useLayoutEffect (Some H) (s0\<lparr>rendered := p'\<rparr>)
                \<and> (450 < H \<longrightarrow>
                      (\<exists>s1. rerender p' (Some H) s0 = Inr s1 \<and> needsFolding s1
                         \<and> contentHeight s1 = H \<and> maxHeight s1 = Some 400)))"
    by (simp add: mount_None maxHeight_def rerender_def useLayoutEffect_Some FOLD_THRESHOLD_def)
qed

theorem effect_without_element_is_noop_witness:
  "html \<lparr>code = ''b'', language = None, highlightedHtml = None\<rparr>
     \<noteq> html \<lparr>code = ''a'', language = None, highlightedHtml = None\<rparr>
   \<and> (450::int) < 1000
   \<and> launch \<lparr>code = ''a'', language = None, highlightedHtml = None\<rparr> None
      [Rerender \<lparr>code = ''b'', language = None, highlightedHtml = None\<rparr> (Some 1000)]
     = Inr \<lparr>copied = False, isCollapsed = True, needsFolding = True, contentHeight = 1000,
            rendered = \<lparr>code = ''b'', language = None, highlightedHtml = None\<rparr>,
            clipboard = [], timers = [], now = 0\<rparr>"
proof -
  let ?a = "\<lparr>code = ''a'', language = None, highlightedHtml = None\<rparr>"
  let ?b = "\<lparr>code = ''b'', language = None, highlightedHtml = None\<rparr>"
  have d: "html ?b \<noteq> html ?a" by (simp add: html_def fallback_def)
  have h: "(450::int) < 1000" by simp
  obtain s0 where m: "mount ?a None = Inr s0"
    and r: "rerender ?b (Some 1000) s0 = useLayoutEffect (Some 1000) (s0\<lparr>rendered := ?b\<rparr>)"
    using effect_without_element_is_noop [of _ None TypeError ?a ?b 1000] d by blast
  from m have "s0 = \<lparr>copied = False, isCollapsed = True, needsFolding = False,
      contentHeight = 0, rendered = ?a, clipboard = [], timers = [], now = 0\<rparr>"
    by (simp add: mount_None)
  with m r d h show ?thesis by (simp add: launch_def useLayoutEffect_Some)
qed

text \<open>
  C2, as stated, fails. A content 1000 high is folded and then expanded by the user;
  the markup changes; after the new measurement \<open>isCollapsed\<close> is still false.
\<close>

theorem expanded_block_stays_expanded_on_new_markup:
  "html \<lparr>code = ''b'', language = None, highlightedHtml = None\<rparr>
     \<noteq> html \<lparr>code = ''a'', language = None, highlightedHtml = None\<rparr>
   \<and> map_sum id isCollapsed
     (launch \<lparr>code = ''a'', language = None, highlightedHtml = None\<rparr> (Some 1000)
        [ClickExpand, Rerender \<lparr>code = ''b'', language = None, highlightedHtml = None\<rparr> (Some 1000)])
     = Inr False"
  by (simp add: launch_def mount_Some expand_def expand_rendered_def expand_disabled_def
      rerender_def html_def fallback_def useLayoutEffect_Some)

text \<open>
  C2, amended. A render with a different markup measures again, starting from the
  state as it is, with nothing reset: \<open>isCollapsed\<close> keeps its value, \<open>needsFolding\<close> is
  true if it was true before or the new height exceeds 450, and the measured height is
  the new height if that exceeds 450 and the old one otherwise. The two fold flags
  are those of a fresh mount of the new content exactly when the block was not
  expanded and, if it was folded, the new height exceeds 450 as well; the clamp is
  then that of a fresh mount too. This is so in particular when the previous content
  was neither folded nor expanded.
\<close>

theorem new_markup_keeps_fold_state:
  "html p \<noteq> html (rendered s) \<Longrightarrow>
     \<exists>t. rerender p (Some H) s = Inr t \<and> rendered t = p
       \<and> isCollapsed t = isCollapsed s
       \<and> needsFolding t = (needsFolding s \<or> 450 < H)
       \<and> contentHeight t = (if 450 < H then H else contentHeight s)
       \<and> (\<not> needsFolding s \<and> isCollapsed s \<longrightarrow>
            (\<exists>m. mount p (Some H) = Inr m \<and> needsFolding t = needsFolding m
               \<and> isCollapsed t = isCollapsed m \<and> maxHeight t = maxHeight m))
       \<and> (\<exists>m. mount p (Some H) = Inr m
            \<and> ((needsFolding t = needsFolding m \<and> isCollapsed t = isCollapsed m)
                 = (isCollapsed s \<and> (needsFolding s \<longrightarrow> 450 < H)))
            \<and> (isCollapsed s \<and> (needsFolding s \<longrightarrow> 450 < H) \<longrightarrow>
                 maxHeight t = maxHeight m))"
  by (auto simp: rerender_def useLayoutEffect_Some mount_Some maxHeight_def)

theorem new_markup_keeps_fold_state_witness:
  "html \<lparr>code = ''b'', language = None, highlightedHtml = None\<rparr>
     \<noteq> html \<lparr>code = ''a'', language = None, highlightedHtml = None\<rparr>
   \<and> rerender \<lparr>code = ''b'', language = None, highlightedHtml = None\<rparr> (Some 100)
       \<lparr>copied = False, isCollapsed = False, needsFolding = True, contentHeight = 1000,
        rendered = \<lparr>code = ''a'', language = None, highlightedHtml = None\<rparr>,
        clipboard = [], timers = [], now = 0\<rparr>
     = Inr \<lparr>copied = False, isCollapsed = False, needsFolding = True, contentHeight = 1000,
        rendered = \<lparr>code = ''b'', language = None, highlightedHtml = None\<rparr>,
        clipboard = [], timers = [], now = 0\<rparr>
   \<and> rerender \<lparr>code = ''b'', language = None, highlightedHtml = None\<rparr> (Some 2000)
       \<lparr>copied = False, isCollapsed = True, needsFolding = True, contentHeight = 1000,
        rendered = \<lparr>code = ''a'', language = None, highlightedHtml = None\<rparr>,
        clipboard = [], timers = [], now = 0\<rparr>
     = mount \<lparr>code = ''b'', language = None, highlightedHtml = None\<rparr> (Some 2000)"
proof -
  let ?a = "\<lparr>code = ''a'', language = None, highlightedHtml = None\<rparr>"
  let ?b = "\<lparr>code = ''b'', language = None, highlightedHtml = None\<rparr>"
  let ?s = "\<lparr>copied = False, isCollapsed = False, needsFolding = True, contentHeight = 1000,
        rendered = ?a, clipboard = [], timers = [], now = 0\<rparr>"
  let ?f = "\<lparr>copied = False, isCollapsed = True, needsFolding = True, contentHeight = 1000,
        rendered = ?a, clipboard = [], timers = [], now = 0\<rparr>"
  have d: "html ?b \<noteq> html ?a" by (simp add: html_def fallback_def)
  then have ds: "html ?b \<noteq> html (rendered ?s)" and df: "html ?b \<noteq> html (rendered ?f)"
    by simp_all
  from new_markup_keeps_fold_state [OF ds, of 100]
  have "\<exists>t. rerender ?b (Some 100) ?s = Inr t \<and> isCollapsed t = isCollapsed ?s" by blast
  then have 1: "rerender ?b (Some 100) ?s = Inr (?s\<lparr>rendered := ?b\<rparr>)"
    using d by (simp add: rerender_def useLayoutEffect_Some)
  from new_markup_keeps_fold_state [OF df, of 2000]
  have "\<exists>t. rerender ?b (Some 2000) ?f = Inr t \<and> contentHeight t = 2000" by auto
  then have 2: "rerender ?b (Some 2000) ?f = mount ?b (Some 2000)"
    using d by (simp add: rerender_def useLayoutEffect_Some mount_Some)
  from d 1 2 show ?thesis by simp
qed

text \<open>
  C4. In every state the \<^verbatim>\<open>maxHeight\<close> of the wrapper is absent when \<open>needsFolding\<close> is
  false, 400 when \<open>needsFolding\<close> and \<open>isCollapsed\<close> are true, and the measured height
  when \<open>needsFolding\<close> is true and \<open>isCollapsed\<close> false. A content measured 1000 high is
  shown with \<^verbatim>\<open>maxHeight\<close> 400, and with 1000 after a click on the expand button.
\<close>

theorem maxHeight_by_fold_state:
  "(\<not> needsFolding s \<longrightarrow> maxHeight s = None)
   \<and> (needsFolding s \<and> isCollapsed s \<longrightarrow> maxHeight s = Some 400)
   \<and> (needsFolding s \<and> \<not> isCollapsed s \<longrightarrow> maxHeight s = Some (contentHeight s))
   \<and> (\<exists>s0. mount p (Some 1000) = Inr s0 \<and> maxHeight s0 = Some 400
          \<and> step s0 ClickExpand = Inr (expand s0) \<and> maxHeight (expand s0) = Some 1000)"
  by (simp add: maxHeight_def FOLD_THRESHOLD_def mount_Some expand_def
      expand_rendered_def expand_disabled_def)

theorem maxHeight_by_fold_state_witness:
  "maxHeight \<lparr>copied = False, isCollapsed = False, needsFolding = False, contentHeight = 0,
       rendered = \<lparr>code = ''a'', language = None, highlightedHtml = None\<rparr>,
       clipboard = [], timers = [], now = 0\<rparr> = None
   \<and> maxHeight \<lparr>copied = False, isCollapsed = True, needsFolding = True, contentHeight = 1000,
       rendered = \<lparr>code = ''a'', language = None, highlightedHtml = None\<rparr>,
       clipboard = [], timers = [], now = 0\<rparr> = Some 400
   \<and> maxHeight \<lparr>copied = False, isCollapsed = False, needsFolding = True, contentHeight = 1000,
       rendered = \<lparr>code = ''a'', language = None, highlightedHtml = None\<rparr>,
       clipboard = [], timers = [], now = 0\<rparr> = Some 1000"
  using
    maxHeight_by_fold_state [of "\<lparr>copied = False, isCollapsed = False, needsFolding = False,
       contentHeight = 0, rendered = \<lparr>code = ''a'', language = None, highlightedHtml = None\<rparr>,
       clipboard = [], timers = [], now = 0\<rparr>"]
    maxHeight_by_fold_state [of "\<lparr>copied = False, isCollapsed = True, needsFolding = True,
       contentHeight = 1000, rendered = \<lparr>code = ''a'', language = None, highlightedHtml = None\<rparr>,
       clipboard = [], timers = [], now = 0\<rparr>"]
    maxHeight_by_fold_state [of "\<lparr>copied = False, isCollapsed = False, needsFolding = True,
       contentHeight = 1000, rendered = \<lparr>code = ''a'', language = None, highlightedHtml = None\<rparr>,
       clipboard = [], timers = [], now = 0\<rparr>"]
  by simp




text \<open>
  C6. Every run of the component, from the first render through any events, ends in a
  state; and if \<open>needsFolding\<close> is false there, the wrapper has no \<^verbatim>\<open>maxHeight\<close>,
  whichever value \<open>isCollapsed\<close> has.
\<close>

theorem unfolded_is_never_clamped:
  "(\<exists>s. launch p r es = Inr s)
   \<and> (\<forall>s b. launch p r es = Inr s \<and> \<not> needsFolding s \<longrightarrow>
         maxHeight s = None \<and> maxHeight (s\<lparr>isCollapsed := b\<rparr>) = None)"
  using launch_returns [of p r es] by (simp add: maxHeight_def)

theorem unfolded_is_never_clamped_witness:
  "launch \<lparr>code = ''a'', language = None, highlightedHtml = None\<rparr> (Some 450)
      [ClickCopy, ClickExpand, Elapse 2000, Timeout 0,
       Rerender \<lparr>code = ''b'', language = None, highlightedHtml = None\<rparr> (Some 300)]
     = Inr \<lparr>copied = False, isCollapsed = True, needsFolding = False, contentHeight = 0,
            rendered = \<lparr>code = ''b'', language = None, highlightedHtml = None\<rparr>,
            clipboard = [''a''], timers = [], now = 2000\<rparr>
   \<and> maxHeight \<lparr>copied = False, isCollapsed = False, needsFolding = False, contentHeight = 0,
            rendered = \<lparr>code = ''b'', language = None, highlightedHtml = None\<rparr>,
            clipboard = [''a''], timers = [], now = 2000\<rparr> = None"
proof -
  have run: "launch \<lparr>code = ''a'', language = None, highlightedHtml = None\<rparr> (Some 450)
      [ClickCopy, ClickExpand, Elapse 2000, Timeout 0,
       Rerender \<lparr>code = ''b'', language = None, highlightedHtml = None\<rparr> (Some 300)]
     = Inr \<lparr>copied = False, isCollapsed = True, needsFolding = False, contentHeight = 0,
            rendered = \<lparr>code = ''b'', language = None, highlightedHtml = None\<rparr>,
            clipboard = [''a''], timers = [], now = 2000\<rparr>"
    by (simp add: launch_def mount_Some handleCopy_def expand_def expand_rendered_def
        elapse_def timeout_def rerender_def html_def fallback_def useLayoutEffect_Some)
  with unfolded_is_never_clamped [of "\<lparr>code = ''a'', language = None, highlightedHtml = None\<rparr>"
      "Some 450" "[ClickCopy, ClickExpand, Elapse 2000, Timeout 0,
       Rerender \<lparr>code = ''b'', language = None, highlightedHtml = None\<rparr> (Some 300)]"]
  show ?thesis by simp
qed

end
